theory Spec2Isabelle
  imports Complex_Main "HOL-Library.Char_ord" "HOL-Library.List_Lexorder"
begin

section \<open>FLAIR2 dataset loader (torchgeo/datasets/flair2.py)\<close>

text \<open>
  A shallow embedding of the class \<open>FLAIR2\<close>. Python exceptions are values of the type
  \<open>error\<close>; a method that can raise returns \<open>error + 'a\<close>. Dictionaries whose iteration
  order matters are association lists in insertion order.
\<close>

datatype error =
    AssertionError
  | DatasetNotFoundError
  | TypeError
  | KeyError
  | IndexError
  | FileNotFoundError
  | DecodeError

subsection \<open>Class-level constants\<close>

definition splits :: "string list" where
  "splits = [''train'', ''test'']"

definition url_prefix :: string where
  "url_prefix = ''https://storage.gra.cloud.ovh.net/v1/AUTH_366279ce616242ebb14161b7991a8461/defi-ia/flair_data_2''"

type_synonym dir_table = "(string \<times> (string \<times> string) list) list"

text \<open>The initial value of the class attribute \<open>dir_names\<close>.\<close>

definition dir_names_init :: dir_table where
  "dir_names_init =
     [(''train'', [(''images'', ''flair_aerial_train''),
                  (''sentinels'', ''flair_sen_train''),
                  (''masks'', ''flair_labels_train'')]),
      (''test'', [(''images'', ''flair_2_aerial_test''),
                 (''sentinels'', ''flair_2_sen_test''),
                 (''masks'', ''flair_2_labels_test'')])]"

text \<open>An entry of \<open>globs\<close> is a pattern or, for the sentinels, a nested dictionary.\<close>

datatype glob_entry = Pattern string | Nested "(string \<times> string) list"

definition globs :: "(string \<times> glob_entry) list" where
  "globs =
     [(''images'', Pattern ''IMG_*.tif''),
      (''sentinels'', Nested [(''data'', ''SEN2_*_data.npy''),
                             (''snow_cloud_mask'', ''SEN2_*_masks.npy'')]),
      (''masks'', Pattern ''MSK_*.tif'')]"

definition centroids_file :: string where
  "centroids_file = ''flair-2_centroids_sp_to_patch''"

definition super_patch_size :: int where
  "super_patch_size = 40"

definition rgb_bands :: "string list" where
  "rgb_bands = [''B01'', ''B02'', ''B03'']"

definition all_bands :: "string list" where
  "all_bands = [''B01'', ''B02'', ''B03'', ''B04'', ''B05'']"

definition classes :: "string list" where
  "classes =
     [''building'', ''pervious surface'', ''impervious surface'', ''bare soil'', ''water'',
      ''coniferous'', ''deciduous'', ''brushwood'', ''vineyard'', ''herbaceous vegetation'',
      ''agricultural land'', ''plowed land'', ''other'']"

subsection \<open>Band statistics\<close>

text \<open>
  The values of the table are the decimal literals of the source, read as exact reals.
\<close>

record band_stat =
  stat_min :: real
  stat_max :: real
  stat_mean :: real
  stat_stdv :: real

definition statistics :: "(string \<times> (string \<times> band_stat) list) list" where
  "statistics =
     [(''train'',
       [(''B01'', \<lparr>stat_min = 0, stat_max = 255,
                   stat_mean = 11377526983072 / 100000000000,
                   stat_stdv = 14678962001526 / 10000000000000\<rparr>),
        (''B02'', \<lparr>stat_min = 0, stat_max = 255,
                   stat_mean = 11808112962721 / 100000000000,
                   stat_stdv = 12889349378677 / 10000000000000\<rparr>),
        (''B03'', \<lparr>stat_min = 0, stat_max = 255,
                   stat_mean = 10927393364381 / 100000000000,
                   stat_stdv = 12674219560871 / 10000000000000\<rparr>),
        (''B04'', \<lparr>stat_min = 0, stat_max = 255,
                   stat_mean = 10236417944851 / 100000000000,
                   stat_stdv = 11057592647291 / 10000000000000\<rparr>),
        (''B05'', \<lparr>stat_min = 0, stat_max = 255,
                   stat_mean = 16697295721745 / 1000000000000,
                   stat_stdv = 82764953440507 / 100000000000000\<rparr>)])]"

text \<open>
  \<open>per_band_statistics\<close>: the assertion on the split, then the items of the split's table
  filtered by \<open>key in bands\<close> (in the table's own order), then the four projections.
\<close>

definition per_band_statistics ::
  "string \<Rightarrow> string list \<Rightarrow> error + (real list \<times> real list \<times> real list \<times> real list)" where
  "per_band_statistics split bands =
     (case map_of statistics split of
        None \<Rightarrow> Inl AssertionError
      | Some table \<Rightarrow>
          (let ordered_bands_statistics =
                 map snd (filter (\<lambda>keyval. fst keyval \<in> set bands) table)
           in Inr (map stat_min ordered_bands_statistics,
                   map stat_max ordered_bands_statistics,
                   map stat_mean ordered_bands_statistics,
                   map stat_stdv ordered_bands_statistics)))"

subsection \<open>Crop window\<close>

text \<open>A Python \<open>slice(start, stop)\<close> with integer bounds and no step.\<close>

record slice =
  start :: int
  stop :: int

definition eigth_size :: int where
  "eigth_size = super_patch_size div 8"

definition quarter_size :: int where
  "quarter_size = super_patch_size div 4"

text \<open>\<open>_crop_super_patch\<close> returns its data argument and the pair of slices.\<close>

definition crop_super_patch :: "'d \<Rightarrow> int \<times> int \<Rightarrow> 'd \<times> (slice \<times> slice)" where
  "crop_super_patch data centroid =
     (case centroid of (y, x) \<Rightarrow>
        (data,
         (\<lparr>start = x - eigth_size, stop = x + quarter_size\<rparr>,
          \<lparr>start = y - eigth_size, stop = y + quarter_size\<rparr>)))"

text \<open>The number of integers in the half-open range of a slice.\<close>

definition slice_width :: "slice \<Rightarrow> nat" where
  "slice_width s = card {start s ..< stop s}"

subsection \<open>Tensors and the per-sample loaders\<close>

type_synonym 'a tensor2 = "'a list list"
type_synonym 'a tensor3 = "'a list list list"
type_synonym 'a tensor4 = "'a list list list list"

text \<open>
  The file decoders are collaborators of the module and are parameters of the model:
  \<open>rasterio_read\<close> is \<open>rasterio.open(path).read()\<close> (all bands), \<open>rasterio_read1\<close> is
  \<open>read(1)\<close>, \<open>np_load\<close> is \<open>torch.from_numpy(np.load(path)).float()\<close>. The float type is
  the parameter \<open>'a\<close>, with \<open>to_float\<close> the cast of \<open>.float()\<close> and \<open>div5\<close> the division
  \<open>torch.div(_, 5)\<close>.
\<close>

record 'a readers =
  rasterio_read :: "string \<Rightarrow> error + int tensor3"
  rasterio_read1 :: "string \<Rightarrow> error + int tensor2"
  np_load :: "string \<Rightarrow> error + 'a tensor4"
  to_float :: "int \<Rightarrow> 'a"
  div5 :: "'a \<Rightarrow> 'a"

record sentinel_paths =
  data_path :: string
  snow_cloud_mask_path :: string

record sample_record =
  image_path :: string
  sentinel_path :: sentinel_paths
  mask_path :: string

text \<open>The fields of a dataset instance that the methods read.\<close>

record flair2 =
  root :: string
  split :: string
  bands :: "string list"
  download :: bool
  checksum :: bool
  use_toy :: bool
  centroids :: "(string \<times> (int \<times> int)) list"
  files :: "sample_record list"

definition get_num_bands :: "flair2 \<Rightarrow> nat" where
  "get_num_bands self = length (bands self)"

definition len :: "flair2 \<Rightarrow> nat" where
  "len self = length (files self)"

text \<open>
  \<open>_load_image\<close>: every band of the file is read; when \<open>B05\<close> is among the bands of the
  instance the last channel is divided by 5 (\<open>tensor[-1]\<close> raises on a tensor without
  channels).
\<close>

definition load_image :: "'a readers \<Rightarrow> flair2 \<Rightarrow> string \<Rightarrow> error + 'a tensor3" where
  "load_image rd self path =
     (case rasterio_read rd path of
        Inl e \<Rightarrow> Inl e
      | Inr array \<Rightarrow>
          (let tensor = map (map (map (to_float rd))) array
           in if ''B05'' \<in> set (bands self)
              then (if tensor = [] then Inl IndexError
                    else Inr (butlast tensor @ [map (map (div5 rd)) (last tensor)]))
              else Inr tensor))"

text \<open>\<open>os.path.basename\<close>: what follows the last slash.\<close>

definition basename :: "string \<Rightarrow> string" where
  "basename p = rev (takeWhile (\<lambda>c. c \<noteq> CHR ''/'') (rev p))"

text \<open>
  \<open>_load_sentinel\<close>: both arrays are loaded, the centroid of the aerial file's basename
  is looked up (a missing key raises), and \<open>_crop_super_patch\<close> is called on each.
\<close>

definition load_sentinel ::
  "'a readers \<Rightarrow> flair2 \<Rightarrow> sentinel_paths \<Rightarrow> string
     \<Rightarrow> error + ('a tensor4 list \<times> (slice \<times> slice))" where
  "load_sentinel rd self paths aerial_path =
     (case np_load rd (data_path paths) of
        Inl e \<Rightarrow> Inl e
      | Inr data \<Rightarrow>
     (case np_load rd (snow_cloud_mask_path paths) of
        Inl e \<Rightarrow> Inl e
      | Inr snow_cloud_mask \<Rightarrow>
     (let img_id = basename aerial_path in
      case map_of (centroids self) img_id of
        None \<Rightarrow> Inl KeyError
      | Some centroid \<Rightarrow>
          (let (cropped_data, cropping_indices) = crop_super_patch data centroid;
               (cropped_snow_cloud_mask, _) = crop_super_patch snow_cloud_mask centroid
           in Inr ([cropped_data, cropped_snow_cloud_mask], cropping_indices)))))"

text \<open>
  \<open>_load_target\<close>: the mask is a tensor of 64-bit integers; \<open>tensor - 1\<close> wraps around
  at the lower end of the type, and \<open>torch.clamp(x, lo, hi)\<close> is \<open>min(max(x, lo), hi)\<close>.
\<close>

definition wrap64 :: "int \<Rightarrow> int" where
  "wrap64 i = (i + 2 ^ 63) mod 2 ^ 64 - 2 ^ 63"

definition torch_clamp :: "int \<Rightarrow> int \<Rightarrow> int \<Rightarrow> int" where
  "torch_clamp x lo hi = min (max x lo) hi"

definition remap_label :: "int \<Rightarrow> int" where
  "remap_label v = torch_clamp (wrap64 (wrap64 v - 1)) 0 (int (length classes) - 1)"

definition load_target :: "'a readers \<Rightarrow> string \<Rightarrow> error + int tensor2" where
  "load_target rd path =
     (case rasterio_read1 rd path of
        Inl e \<Rightarrow> Inl e
      | Inr array \<Rightarrow> Inr (map (map remap_label) array))"

record 'a sample =
  image :: "'a tensor3"
  sentinel :: "'a tensor4 list \<times> (slice \<times> slice)"
  mask :: "int tensor2"

text \<open>
  \<open>__getitem__\<close>: Python list indexing (negative indices count from the end, out of
  range raises), the three loaders in order, then the optional transform.
\<close>

definition getitem ::
  "'a readers \<Rightarrow> ('a sample \<Rightarrow> 'a sample) option \<Rightarrow> flair2 \<Rightarrow> int \<Rightarrow> error + 'a sample" where
  "getitem rd transforms self index =
     (let n = int (length (files self));
          j = (if index < 0 then index + n else index)
      in if j < 0 \<or> n \<le> j then Inl IndexError
         else
           (let entry = files self ! nat j;
                aerial_fn = image_path entry;
                sentinel_fn = sentinel_path entry;
                mask_fn = mask_path entry
            in case load_image rd self aerial_fn of
                 Inl e \<Rightarrow> Inl e
               | Inr aerial \<Rightarrow>
              (case load_sentinel rd self sentinel_fn aerial_fn of
                 Inl e \<Rightarrow> Inl e
               | Inr sen \<Rightarrow>
              (case load_target rd mask_fn of
                 Inl e \<Rightarrow> Inl e
               | Inr msk \<Rightarrow>
                  (let smp = \<lparr>image = aerial, sentinel = sen, mask = msk\<rparr>
                   in case transforms of
                        None \<Rightarrow> Inr smp
                      | Some t \<Rightarrow> Inr (t smp))))))"

subsection \<open>The crop and the band order as the specification words them\<close>

text \<open>
  Python slicing of a list by \<open>slice(start, stop)\<close>: a negative bound counts from the
  end and every bound is clipped to the list.
\<close>

definition py_slice :: "slice \<Rightarrow> 'a list \<Rightarrow> 'a list" where
  "py_slice s xs =
     (let n = int (length xs);
          clip = (\<lambda>i. if i < 0 then max (i + n) 0 else min i n);
          a = clip (start s);
          b = clip (stop s)
      in take (nat (b - a)) (drop (nat a) xs))"

text \<open>
  The specification's \<open>applyCrop(array, window)\<close>: the array restricted to the window's
  row and column ranges on its two spatial axes. The source has no such function; this
  definition is what \<open>_load_sentinel\<close> is compared with.
\<close>

definition apply_crop_spec :: "'a tensor4 \<Rightarrow> slice \<times> slice \<Rightarrow> 'a tensor4" where
  "apply_crop_spec array window =
     map (map (\<lambda>img. map (py_slice (snd window)) (py_slice (fst window) img))) array"

text \<open>Height and width of every image of a tensor of shape time x channel x H x W.\<close>

definition spatial_extent :: "'a tensor4 \<Rightarrow> (nat \<times> nat) list" where
  "spatial_extent array = concat (map (map (\<lambda>img. (length img, length (hd img)))) array)"

text \<open>
  The specification's \<open>getStatistics\<close>: the statistics of the requested bands in the
  order of the request.
\<close>

definition per_band_statistics_spec ::
  "string \<Rightarrow> string list \<Rightarrow> error + (real list \<times> real list \<times> real list \<times> real list)" where
  "per_band_statistics_spec splt bnds =
     (case map_of statistics splt of
        None \<Rightarrow> Inl AssertionError
      | Some table \<Rightarrow>
          (let sel = List.map_filter (map_of table) bnds
           in Inr (map stat_min sel, map stat_max sel, map stat_mean sel, map stat_stdv sel)))"

text \<open>The requested bands in the order of the table, \<open>B01\<close> to \<open>B05\<close>.\<close>

definition table_order :: "string list \<Rightarrow> string list" where
  "table_order bnds = filter (\<lambda>b. b \<in> set bnds) all_bands"

subsection \<open>A concrete dataset\<close>

text \<open>
  One sample of the train split: a super-area of 40 x 40 pixels with one date and one
  channel, an aerial file of five bands, and a mask row with the raw labels 0, 1 and 14.
\<close>

definition example_array :: "real tensor4" where
  "example_array = [[replicate 40 (replicate 40 0)]]"

definition example_readers :: "real readers" where
  "example_readers =
     \<lparr>rasterio_read = (\<lambda>p. Inr (replicate 5 [[10, 20]])),
      rasterio_read1 = (\<lambda>p. Inr [[0, 1, 14]]),
      np_load = (\<lambda>p. Inr example_array),
      to_float = real_of_int,
      div5 = (\<lambda>x. x / 5)\<rparr>"

definition example_dataset :: flair2 where
  "example_dataset =
     \<lparr>root = ''data'', split = ''train'', bands = [''B01'', ''B02'', ''B03''],
      download = False, checksum = False, use_toy = False,
      centroids = [(''IMG_061946.tif'', (20, 20))],
      files = [\<lparr>image_path = ''data/flair_aerial_train/D004_2021/Z1_NN/img/IMG_061946.tif'',
                sentinel_path =
                  \<lparr>data_path = ''data/flair_sen_train/D004_2021/Z1_NN/sen/SEN2_sp_D004_2021-Z1_NN_data.npy'',
                   snow_cloud_mask_path = ''data/flair_sen_train/D004_2021/Z1_NN/sen/SEN2_sp_D004_2021-Z1_NN_masks.npy''\<rparr>,
                mask_path = ''data/flair_labels_train/D004_2021/Z1_NN/msk/MSK_061946.tif''\<rparr>]\<rparr>"

text \<open>The same readers over a mask whose only label is the least 64-bit integer.\<close>

definition least_label_readers :: "real readers" where
  "least_label_readers = example_readers\<lparr>rasterio_read1 := (\<lambda>p. Inr [[- (2 ^ 63)]])\<rparr>"

subsection \<open>The file system, the archive services and the class-level state\<close>

text \<open>
  The file system is a parameter \<open>'fs\<close>. The operations of \<open>os.path\<close>, \<open>glob\<close>, \<open>json\<close> and
  of \<open>torchgeo.datasets.utils\<close> that the module calls are the fields of \<open>services\<close>;
  \<open>glob\<close> takes the flag \<open>recursive\<close>. Every call is recorded in the trace of the world.
  The class attribute \<open>dir_names\<close> is shared by all instances and lives in the world.
\<close>

datatype event =
    IsFile string
  | IsDir string
  | Glob string
  | Download string string
  | Extract string
  | Open string

record 'fs services =
  isfile :: "'fs \<Rightarrow> string \<Rightarrow> bool"
  isdir :: "'fs \<Rightarrow> string \<Rightarrow> bool"
  glob :: "'fs \<Rightarrow> bool \<Rightarrow> string \<Rightarrow> string list"
  download_url :: "string \<Rightarrow> string \<Rightarrow> 'fs \<Rightarrow> 'fs"
  extract_archive :: "string \<Rightarrow> 'fs \<Rightarrow> 'fs"
  json_load :: "'fs \<Rightarrow> string \<Rightarrow> error + (string \<times> (int \<times> int)) list"

record 'fs world =
  fs :: 'fs
  dir_names :: dir_table
  trace :: "event list"

text \<open>\<open>os.path.join\<close> of two components (POSIX).\<close>

definition path_join :: "string \<Rightarrow> string \<Rightarrow> string" where
  "path_join a b =
     (if b \<noteq> [] \<and> hd b = CHR ''/'' then b
      else if a = [] \<or> last a = CHR ''/'' then a @ b
      else a @ ''/'' @ b)"

definition os_isfile :: "'fs services \<Rightarrow> string \<Rightarrow> 'fs world \<Rightarrow> bool \<times> 'fs world" where
  "os_isfile os p w = (isfile os (fs w) p, w\<lparr>trace := trace w @ [IsFile p]\<rparr>)"

definition os_isdir :: "'fs services \<Rightarrow> string \<Rightarrow> 'fs world \<Rightarrow> bool \<times> 'fs world" where
  "os_isdir os p w = (isdir os (fs w) p, w\<lparr>trace := trace w @ [IsDir p]\<rparr>)"

definition glob_glob ::
  "'fs services \<Rightarrow> bool \<Rightarrow> string \<Rightarrow> 'fs world \<Rightarrow> string list \<times> 'fs world" where
  "glob_glob os recursive p w = (glob os (fs w) recursive p, w\<lparr>trace := trace w @ [Glob p]\<rparr>)"

text \<open>The methods \<open>_download\<close> and \<open>_extract\<close>.\<close>

definition priv_download :: "'fs services \<Rightarrow> flair2 \<Rightarrow> string \<Rightarrow> 'fs world \<Rightarrow> 'fs world" where
  "priv_download os self url w =
     (let src = path_join url_prefix (url @ ''.zip'')
      in w\<lparr>fs := download_url os src (root self) (fs w),
           trace := trace w @ [Download src (root self)]\<rparr>)"

definition priv_extract :: "'fs services \<Rightarrow> flair2 \<Rightarrow> string \<Rightarrow> 'fs world \<Rightarrow> 'fs world" where
  "priv_extract os self file_path w =
     (let zipfile = path_join (root self) (file_path @ ''.zip'')
      in w\<lparr>fs := extract_archive os zipfile (fs w),
           trace := trace w @ [Extract zipfile]\<rparr>)"

text \<open>
  Python's \<open>str.replace\<close> for a non-empty pattern: every occurrence, left to right,
  without overlap. The third argument counts the characters of a match still to skip.
\<close>

fun replace_from :: "string \<Rightarrow> string \<Rightarrow> nat \<Rightarrow> string \<Rightarrow> string" where
  "replace_from old new k [] = []"
| "replace_from old new (Suc k) (c # cs) = replace_from old new k cs"
| "replace_from old new 0 (c # cs) =
     (if old \<noteq> [] \<and> take (length old) (c # cs) = old
      then new @ replace_from old new (length old - 1) cs
      else c # replace_from old new 0 cs)"

definition str_replace :: "string \<Rightarrow> string \<Rightarrow> string \<Rightarrow> string" where
  "str_replace s old new = replace_from old new 0 s"

text \<open>Assignment \<open>d[k] = v\<close> on a dictionary kept in insertion order.\<close>

fun dict_set :: "('k \<times> 'v) list \<Rightarrow> 'k \<Rightarrow> 'v \<Rightarrow> ('k \<times> 'v) list" where
  "dict_set [] k v = [(k, v)]"
| "dict_set ((k', v') # rest) k v =
     (if k' = k then (k, v) # rest else (k', v') # dict_set rest k v)"

subsection \<open>Verification\<close>

text \<open>\<open>_verify_toy\<close>: returns the instance with its root rebound, or raises.\<close>

definition verify_toy ::
  "'fs services \<Rightarrow> flair2 \<Rightarrow> 'fs world \<Rightarrow> (error + flair2) \<times> 'fs world" where
  "verify_toy os self w =
     (let toy = path_join (root self) ''flair_2_toy_dataset''
      in case os_isdir os toy w of (present, w1) \<Rightarrow>
           if present then (Inr (self\<lparr>root := toy\<rparr>), w1)
           else
             (case os_isfile os (path_join (root self) ''flair_2_toy_dataset.zip'') w1 of
                (archived, w2) \<Rightarrow>
                  if archived
                  then (Inr (self\<lparr>root := toy\<rparr>), priv_extract os self ''flair_2_toy_dataset'' w2)
                  else if \<not> download self then (Inl DatasetNotFoundError, w2)
                  else (Inr (self\<lparr>root := toy\<rparr>),
                        priv_extract os self ''flair_2_toy_dataset''
                          (priv_download os self ''flair_2_toy_dataset'' w2))))"

text \<open>The rewriting of one entry of \<open>dir_names\<close> in toy mode.\<close>

definition rewrite_dir_names ::
  "string \<Rightarrow> string \<Rightarrow> string \<Rightarrow> 'fs world \<Rightarrow> error + 'fs world" where
  "rewrite_dir_names key old new w =
     (case map_of (dir_names w) key of
        None \<Rightarrow> Inl KeyError
      | Some names \<Rightarrow>
          Inr (w\<lparr>dir_names :=
                  dict_set (dir_names w) key (map (\<lambda>(k, f). (k, str_replace f old new)) names)\<rparr>))"

text \<open>The check of the centroids metadata file.\<close>

definition verify_centroids ::
  "'fs services \<Rightarrow> flair2 \<Rightarrow> 'fs world \<Rightarrow> (error + unit) \<times> 'fs world" where
  "verify_centroids os self w =
     (case os_isfile os (path_join (root self) (centroids_file @ ''.json'')) w of
        (json_present, w1) \<Rightarrow>
          if json_present then (Inr (), w1)
          else
            (case os_isfile os (path_join (root self) (centroids_file @ ''.zip'')) w1 of
               (zip_present, w2) \<Rightarrow>
                 if zip_present then (Inr (), priv_extract os self centroids_file w2)
                 else if \<not> download self then (Inl DatasetNotFoundError, w2)
                 else (Inr (), priv_extract os self centroids_file
                                 (priv_download os self centroids_file w2))))"

text \<open>
  The first loop of \<open>_verify\<close>, over the items of \<open>dir_names[split]\<close>: a directory that
  is absent, or has no file matching its glob, is appended to \<open>to_extract\<close>. The glob of
  the key is joined to the path, which raises when the entry is a dictionary.
\<close>

fun scan_dirs ::
  "'fs services \<Rightarrow> flair2 \<Rightarrow> (string \<times> string) list \<Rightarrow> string list \<Rightarrow> 'fs world
     \<Rightarrow> (error + string list) \<times> 'fs world" where
  "scan_dirs os self [] to_extract w = (Inr to_extract, w)"
| "scan_dirs os self ((train_or_test, dir_name) # rest) to_extract w =
     (case os_isdir os (path_join (root self) dir_name) w of
        (present, w1) \<Rightarrow>
          if \<not> present then scan_dirs os self rest (to_extract @ [dir_name]) w1
          else
            (case map_of globs train_or_test of
               None \<Rightarrow> (Inl KeyError, w1)
             | Some (Nested d) \<Rightarrow> (Inl TypeError, w1)
             | Some (Pattern pat) \<Rightarrow>
                 (case glob_glob os True
                         (path_join (path_join (path_join (root self) dir_name) ''**'') pat) w1 of
                    (found, w2) \<Rightarrow>
                      if found = [] then scan_dirs os self rest (to_extract @ [dir_name]) w2
                      else scan_dirs os self rest to_extract w2)))"

text \<open>
  The second loop: a candidate whose archive is present is extracted and removed from
  \<open>to_download\<close>.
\<close>

fun extract_local ::
  "'fs services \<Rightarrow> flair2 \<Rightarrow> string list \<Rightarrow> string list \<Rightarrow> 'fs world
     \<Rightarrow> string list \<times> 'fs world" where
  "extract_local os self [] to_download w = (to_download, w)"
| "extract_local os self (candidate # rest) to_download w =
     (case glob_glob os False (path_join (root self) (candidate @ ''.zip'')) w of
        (found, w1) \<Rightarrow>
          if found \<noteq> []
          then extract_local os self rest (remove1 candidate to_download)
                 (priv_extract os self candidate w1)
          else extract_local os self rest to_download w1)"

text \<open>The third loop: download and extract what is left.\<close>

fun download_all :: "'fs services \<Rightarrow> flair2 \<Rightarrow> string list \<Rightarrow> 'fs world \<Rightarrow> 'fs world" where
  "download_all os self [] w = w"
| "download_all os self (candidate # rest) w =
     download_all os self rest (priv_extract os self candidate (priv_download os self candidate w))"

text \<open>\<open>_verify\<close>.\<close>

definition verify ::
  "'fs services \<Rightarrow> flair2 \<Rightarrow> 'fs world \<Rightarrow> (error + flair2) \<times> 'fs world" where
  "verify os self w =
     (if use_toy self then
        (case verify_toy os self w of
           (Inl e, w1) \<Rightarrow> (Inl e, w1)
         | (Inr self1, w1) \<Rightarrow>
             (case rewrite_dir_names ''train'' ''flair'' ''flair_2_toy'' w1 of
                Inl e \<Rightarrow> (Inl e, w1)
              | Inr w2 \<Rightarrow>
                  (case rewrite_dir_names ''test'' ''flair_2'' ''flair_2_toy'' w2 of
                     Inl e \<Rightarrow> (Inl e, w2)
                   | Inr w3 \<Rightarrow> (Inr self1, w3))))
      else
        (case verify_centroids os self w of
           (Inl e, w1) \<Rightarrow> (Inl e, w1)
         | (Inr u, w1) \<Rightarrow>
             (case map_of (dir_names w1) (split self) of
                None \<Rightarrow> (Inl KeyError, w1)
              | Some names \<Rightarrow>
                  (case scan_dirs os self names [] w1 of
                     (Inl e, w2) \<Rightarrow> (Inl e, w2)
                   | (Inr to_extract, w2) \<Rightarrow>
                       if to_extract = [] then (Inr self, w2)
                       else
                         (case extract_local os self to_extract to_extract w2 of
                            (to_download, w3) \<Rightarrow>
                              if to_download = [] then (Inr self, w3)
                              else if \<not> download self then (Inl DatasetNotFoundError, w3)
                              else (Inr self, download_all os self to_download w3))))))"

subsection \<open>Construction\<close>

text \<open>\<open>_load_centroids\<close>: the JSON file is opened and decoded.\<close>

definition load_centroids ::
  "'fs services \<Rightarrow> flair2 \<Rightarrow> string \<Rightarrow> 'fs world
     \<Rightarrow> (error + (string \<times> (int \<times> int)) list) \<times> 'fs world" where
  "load_centroids os self filename w =
     (let p = path_join (root self) (filename @ ''.json'')
      in (json_load os (fs w) p, w\<lparr>trace := trace w @ [Open p]\<rparr>))"

text \<open>
  One \<open>sorted(glob.glob(os.path.join(root, dir_names[split][kind], "**", pattern),
  recursive=True))\<close> of \<open>_load_files\<close>.
\<close>

definition sorted_glob ::
  "'fs services \<Rightarrow> flair2 \<Rightarrow> string \<Rightarrow> string \<Rightarrow> 'fs world
     \<Rightarrow> (error + string list) \<times> 'fs world" where
  "sorted_glob os self kind pat w =
     (case map_of (dir_names w) (split self) of
        None \<Rightarrow> (Inl KeyError, w)
      | Some names \<Rightarrow>
          (case map_of names kind of
             None \<Rightarrow> (Inl KeyError, w)
           | Some d \<Rightarrow>
               (case glob_glob os True
                       (path_join (path_join (path_join (root self) d) ''**'') pat) w of
                  (found, w1) \<Rightarrow> (Inr (sort found), w1))))"

text \<open>\<open>_load_files\<close>: four sorted globs, zipped position by position.\<close>

definition load_files ::
  "'fs services \<Rightarrow> flair2 \<Rightarrow> 'fs world \<Rightarrow> (error + sample_record list) \<times> 'fs world" where
  "load_files os self w =
     (case sorted_glob os self ''images'' ''IMG_*.tif'' w of
        (Inl e, w1) \<Rightarrow> (Inl e, w1)
      | (Inr images, w1) \<Rightarrow>
     (case sorted_glob os self ''sentinels'' ''SEN2_*_data.npy'' w1 of
        (Inl e, w2) \<Rightarrow> (Inl e, w2)
      | (Inr sentinels_data, w2) \<Rightarrow>
     (case sorted_glob os self ''sentinels'' ''SEN2_*_masks.npy'' w2 of
        (Inl e, w3) \<Rightarrow> (Inl e, w3)
      | (Inr sentinels_mask, w3) \<Rightarrow>
     (case sorted_glob os self ''masks'' ''MSK_*.tif'' w3 of
        (Inl e, w4) \<Rightarrow> (Inl e, w4)
      | (Inr masks, w4) \<Rightarrow>
          (let sentinels =
                 map (\<lambda>(d, m). \<lparr>data_path = d, snow_cloud_mask_path = m\<rparr>)
                     (zip sentinels_data sentinels_mask)
           in (Inr (map (\<lambda>(i, s, m). \<lparr>image_path = i, sentinel_path = s, mask_path = m\<rparr>)
                        (zip images (zip sentinels masks))),
               w4))))))"

text \<open>
  \<open>__init__\<close>: the assertion on the split, the fields, \<open>_verify\<close>, the centroids, the
  file index. The transform is passed to \<open>getitem\<close> and is not a field of the model.
\<close>

definition init ::
  "'fs services \<Rightarrow> string \<Rightarrow> string \<Rightarrow> string list \<Rightarrow> bool \<Rightarrow> bool \<Rightarrow> bool \<Rightarrow> 'fs world
     \<Rightarrow> (error + flair2) \<times> 'fs world" where
  "init os rt splt bnds dl cs toy w =
     (if splt \<notin> set splits then (Inl AssertionError, w)
      else
        (let self = \<lparr>root = rt, split = splt, bands = bnds, download = dl, checksum = cs,
                     use_toy = toy, centroids = [], files = []\<rparr>
         in case verify os self w of
              (Inl e, w1) \<Rightarrow> (Inl e, w1)
            | (Inr self1, w1) \<Rightarrow>
                (case load_centroids os self1 centroids_file w1 of
                   (Inl e, w2) \<Rightarrow> (Inl e, w2)
                 | (Inr table, w2) \<Rightarrow>
                     (case load_files os (self1\<lparr>centroids := table\<rparr>) w2 of
                        (Inl e, w3) \<Rightarrow> (Inl e, w3)
                      | (Inr index, w3) \<Rightarrow>
                          (Inr (self1\<lparr>centroids := table, files := index\<rparr>), w3)))))"

subsection \<open>A concrete file system\<close>

text \<open>
  A file system given by the list of the paths that exist; a glob pattern matches when
  the pattern itself is listed. Downloading adds the archive, extracting adds the path
  of the archive without its suffix.
\<close>

definition example_services :: "string list services" where
  "example_services =
     \<lparr>isfile = (\<lambda>paths p. p \<in> set paths),
      isdir = (\<lambda>paths p. p \<in> set paths),
      glob = (\<lambda>paths recursive p. filter (\<lambda>q. q = p) paths),
      download_url = (\<lambda>url dir paths. paths @ [path_join dir (basename url)]),
      extract_archive = (\<lambda>zipfile paths. paths @ [take (length zipfile - 4) zipfile]),
      json_load = (\<lambda>paths p. if p \<in> set paths then Inr [] else Inl FileNotFoundError)\<rparr>"

definition fresh_world :: "string list \<Rightarrow> string list world" where
  "fresh_world paths = \<lparr>fs = paths, dir_names = dir_names_init, trace = []\<rparr>"

text \<open>The train split, complete on disk.\<close>

definition train_paths :: "string list" where
  "train_paths =
     [''data/flair-2_centroids_sp_to_patch.json'',
      ''data/flair_aerial_train'', ''data/flair_aerial_train/**/IMG_*.tif'',
      ''data/flair_sen_train'', ''data/flair_sen_train/**/SEN2_*_data.npy'',
      ''data/flair_sen_train/**/SEN2_*_masks.npy'',
      ''data/flair_labels_train'', ''data/flair_labels_train/**/MSK_*.tif'']"

text \<open>The extracted toy dataset, with its centroids file and no split directory.\<close>

definition toy_paths :: "string list" where
  "toy_paths =
     [''data/flair_2_toy_dataset'',
      ''data/flair_2_toy_dataset/flair-2_centroids_sp_to_patch.json'']"

text \<open>The train split with its images only: no sentinel and no mask directory.\<close>

definition partial_paths :: "string list" where
  "partial_paths =
     [''data/flair-2_centroids_sp_to_patch.json'',
      ''data/flair_aerial_train'', ''data/flair_aerial_train/**/IMG_*.tif'']"

text \<open>
  The train split with the sentinel directory still archived, next to the extracted
  toy dataset.
\<close>

definition mixed_paths :: "string list" where
  "mixed_paths =
     [''data/flair-2_centroids_sp_to_patch.json'',
      ''data/flair_aerial_train'', ''data/flair_aerial_train/**/IMG_*.tif'',
      ''data/flair_sen_train.zip'',
      ''data/flair_labels_train'', ''data/flair_labels_train/**/MSK_*.tif'',
      ''data/flair_2_toy_dataset'',
      ''data/flair_2_toy_dataset/flair-2_centroids_sp_to_patch.json'']"

text \<open>The construction of a toy instance of the train split, downloads allowed or not.\<close>

definition toy_construction :: "bool \<Rightarrow> string list \<Rightarrow> (error + flair2) \<times> string list world" where
  "toy_construction dl paths =
     init example_services ''data'' ''train'' all_bands dl False True (fresh_world paths)"

definition toy_instance :: "bool \<Rightarrow> flair2" where
  "toy_instance dl =
     \<lparr>root = ''data/flair_2_toy_dataset'', split = ''train'', bands = all_bands,
      download = dl, checksum = False, use_toy = True, centroids = [], files = []\<rparr>"

definition toy_dir_names :: dir_table where
  "toy_dir_names =
     [(''train'', [(''images'', ''flair_2_toy_aerial_train''),
                  (''sentinels'', ''flair_2_toy_sen_train''),
                  (''masks'', ''flair_2_toy_labels_train'')]),
      (''test'', [(''images'', ''flair_2_toy_aerial_test''),
                 (''sentinels'', ''flair_2_toy_sen_test''),
                 (''masks'', ''flair_2_toy_labels_test'')])]"

section \<open>Properties\<close>

subsection \<open>Auxiliary facts\<close>

lemma consts_vals: "eigth_size = 5" "quarter_size = 10"
  by (simp_all add: eigth_size_def quarter_size_def super_patch_size_def)

lemma example_basename:
  "basename ''data/flair_aerial_train/D004_2021/Z1_NN/img/IMG_061946.tif'' = ''IMG_061946.tif''"
  by (simp add: basename_def)

lemma example_getitem:
  "getitem example_readers None example_dataset 0 =
     Inr \<lparr>image = replicate 5 [[10, 20]],
          sentinel = ([example_array, example_array],
                      (\<lparr>start = 15, stop = 30\<rparr>, \<lparr>start = 15, stop = 30\<rparr>)),
          mask = [[0, 0, 12]]\<rparr>"
  by (simp add: getitem_def example_dataset_def example_readers_def load_image_def
      load_sentinel_def load_target_def example_basename crop_super_patch_def consts_vals
      remap_label_def torch_clamp_def wrap64_def classes_def)

lemma len_classes: "int (length classes) - 1 = 12" by (simp add: classes_def)

lemma wrap64_id: "- (2^63) \<le> i \<Longrightarrow> i < 2^63 \<Longrightarrow> wrap64 i = i"
  by (simp add: wrap64_def)

lemma remap_range: "0 \<le> remap_label v \<and> remap_label v \<le> 12"
  by (simp add: remap_label_def torch_clamp_def len_classes)

lemma remap_in_range: "- (2^63) < v \<Longrightarrow> v < 2^63 \<Longrightarrow> remap_label v = max 0 (min 12 (v - 1))"
  by (simp add: remap_label_def torch_clamp_def len_classes wrap64_id)

lemma train_table:
  "map_of statistics ''train'' = Some (snd (hd statistics))"
  by (simp add: statistics_def)

lemma keys_train: "map fst (snd (hd statistics)) = all_bands"
  by (simp add: statistics_def all_bands_def)

lemma map_filter_cong_set:
  "(\<And>x. x \<in> set xs \<Longrightarrow> f x = g x) \<Longrightarrow> List.map_filter f xs = List.map_filter g xs"
  by (induction xs) (auto split: option.splits)

lemma filter_table_by_keys:
  "distinct (map fst t) \<Longrightarrow>
   map snd (filter (\<lambda>kv. fst kv \<in> S) t) = List.map_filter (map_of t) (filter (\<lambda>b. b \<in> S) (map fst t))"
proof (induction t)
  case Nil then show ?case by simp
next
  case (Cons a t)
  obtain k v where a: "a = (k, v)" by (cases a)
  from Cons.prems a have k: "k \<notin> fst ` set t" and d: "distinct (map fst t)" by auto
  have eq: "List.map_filter (map_of ((k, v) # t)) (filter (\<lambda>b. b \<in> S) (map fst t))
          = List.map_filter (map_of t) (filter (\<lambda>b. b \<in> S) (map fst t))"
  proof (rule map_filter_cong_set)
    fix x assume "x \<in> set (filter (\<lambda>b. b \<in> S) (map fst t))"
    then have "x \<noteq> k" using k by auto
    then show "map_of ((k, v) # t) x = map_of t x" by simp
  qed
  have hd: "map_of ((k, v) # t) k = Some v" by simp
  show ?case unfolding a using Cons.IH[OF d] eq hd
    by (simp del: map_of.simps)
qed

lemma filter_keys_card:
  "distinct (map fst t) \<Longrightarrow> length (filter (\<lambda>kv. fst kv \<in> S) t) = card (S \<inter> fst ` set t)"
proof (induction t)
  case Nil then show ?case by simp
next
  case (Cons a t)
  then have "fst a \<notin> fst ` set t" by auto
  with Cons show ?case by (auto simp: Int_insert_right card_insert_if)
qed

subsection \<open>The sentinel arrays and the crop window\<close>

text \<open>
  C1 (as stated in the specification): the two sentinel arrays of a sample are the loaded
  arrays restricted to the crop window, of spatial extent 15 x 15. The code returns the
  loaded arrays whole: \<open>_crop_super_patch\<close> hands its data argument back next to the
  slices. The amended property, for the record \<open>entry\<close> that the index selects: when the
  access succeeds, the index is in range and the sentinel entry of the sample is the
  pair of arrays as the decoder returned them for that record, together with the window
  computed from the centroid of the basename of its aerial file; and when the index is
  in range and the loaders of that record succeed, the access returns exactly that
  sample.
\<close>

theorem getitem_sentinel_uncropped:
  assumes entry: "entry = files self ! nat (if index < 0 then index + int (length (files self)) else index)"
  shows
   "(getitem rd None self index = Inr smp \<longrightarrow>
       - int (length (files self)) \<le> index \<and> index < int (length (files self))
       \<and> (\<exists>data msk y x.
             np_load rd (data_path (sentinel_path entry)) = Inr data
             \<and> np_load rd (snow_cloud_mask_path (sentinel_path entry)) = Inr msk
             \<and> map_of (centroids self) (basename (image_path entry)) = Some (y, x)
             \<and> sentinel smp =
                 ([data, msk],
                  (\<lparr>start = x - 5, stop = x + 10\<rparr>, \<lparr>start = y - 5, stop = y + 10\<rparr>))))
    \<and> (- int (length (files self)) \<le> index \<and> index < int (length (files self))
        \<and> load_image rd self (image_path entry) = Inr aerial
        \<and> np_load rd (data_path (sentinel_path entry)) = Inr data'
        \<and> np_load rd (snow_cloud_mask_path (sentinel_path entry)) = Inr msk'
        \<and> map_of (centroids self) (basename (image_path entry)) = Some (y', x')
        \<and> load_target rd (mask_path entry) = Inr tgt
        \<longrightarrow> getitem rd None self index =
              Inr \<lparr>image = aerial,
                   sentinel = ([data', msk'],
                               (\<lparr>start = x' - 5, stop = x' + 10\<rparr>,
                                \<lparr>start = y' - 5, stop = y' + 10\<rparr>)),
                   mask = tgt\<rparr>)"
proof (intro conjI impI)
  define n where "n = int (length (files self))"
  define j where "j = (if index < 0 then index + n else index)"
  have e: "entry = files self ! nat j" by (simp add: entry j_def n_def)
  {
    assume g: "getitem rd None self index = Inr smp"
    then have rng: "\<not> (j < 0 \<or> n \<le> j)"
      by (auto simp: getitem_def Let_def n_def j_def split: if_splits)
    then show "- int (length (files self)) \<le> index" and "index < int (length (files self))"
      by (auto simp: j_def n_def split: if_splits)
    from g rng obtain aerial0 sen msk0 where
      sen: "load_sentinel rd self (sentinel_path entry) (image_path entry) = Inr sen"
      and smp: "smp = \<lparr>image = aerial0, sentinel = sen, mask = msk0\<rparr>"
      by (auto simp: getitem_def Let_def n_def j_def e split: if_splits sum.splits)
    from sen obtain data msk c where
      d: "np_load rd (data_path (sentinel_path entry)) = Inr data"
      and m: "np_load rd (snow_cloud_mask_path (sentinel_path entry)) = Inr msk"
      and c: "map_of (centroids self) (basename (image_path entry)) = Some c"
      and r: "sen = ([data, msk], snd (crop_super_patch data c))"
      by (auto simp: load_sentinel_def Let_def crop_super_patch_def
          split: sum.splits option.splits prod.splits)
    obtain y x where yx: "c = (y, x)" by (cases c)
    have "sentinel smp = ([data, msk],
                  (\<lparr>start = x - 5, stop = x + 10\<rparr>, \<lparr>start = y - 5, stop = y + 10\<rparr>))"
      using smp r yx by (simp add: crop_super_patch_def consts_vals)
    with d m c yx show "\<exists>data msk y x.
             np_load rd (data_path (sentinel_path entry)) = Inr data
             \<and> np_load rd (snow_cloud_mask_path (sentinel_path entry)) = Inr msk
             \<and> map_of (centroids self) (basename (image_path entry)) = Some (y, x)
             \<and> sentinel smp =
                 ([data, msk],
                  (\<lparr>start = x - 5, stop = x + 10\<rparr>, \<lparr>start = y - 5, stop = y + 10\<rparr>))"
      by blast
  }
  {
    assume h: "- int (length (files self)) \<le> index \<and> index < int (length (files self))
        \<and> load_image rd self (image_path entry) = Inr aerial
        \<and> np_load rd (data_path (sentinel_path entry)) = Inr data'
        \<and> np_load rd (snow_cloud_mask_path (sentinel_path entry)) = Inr msk'
        \<and> map_of (centroids self) (basename (image_path entry)) = Some (y', x')
        \<and> load_target rd (mask_path entry) = Inr tgt"
    then have rng: "\<not> (j < 0 \<or> n \<le> j)" by (auto simp: j_def n_def)
    have ls: "load_sentinel rd self (sentinel_path entry) (image_path entry) =
                Inr ([data', msk'],
                     (\<lparr>start = x' - 5, stop = x' + 10\<rparr>, \<lparr>start = y' - 5, stop = y' + 10\<rparr>))"
      using h by (simp add: load_sentinel_def Let_def crop_super_patch_def consts_vals)
    show "getitem rd None self index =
              Inr \<lparr>image = aerial,
                   sentinel = ([data', msk'],
                               (\<lparr>start = x' - 5, stop = x' + 10\<rparr>,
                                \<lparr>start = y' - 5, stop = y' + 10\<rparr>)),
                   mask = tgt\<rparr>"
    proof (cases "index < 0")
      case True
      then have je: "entry = files self ! nat (index + int (length (files self)))"
        by (simp add: entry)
      from True rng have ok: "\<not> (index + int (length (files self)) < 0)"
        "\<not> (int (length (files self)) \<le> index + int (length (files self)))"
        by (simp_all add: j_def n_def)
      show ?thesis
        using True ok h ls unfolding je by (simp add: getitem_def Let_def)
    next
      case False
      then have je: "entry = files self ! nat index" by (simp add: entry)
      from False rng have ok: "\<not> (int (length (files self)) \<le> index)"
        by (simp add: j_def n_def)
      show ?thesis
        using False ok h ls unfolding je by (simp add: getitem_def Let_def)
    qed
  }
qed

theorem getitem_sentinel_uncropped_witness:
  "getitem example_readers None example_dataset 0 =
     Inr \<lparr>image = replicate 5 [[10, 20]],
          sentinel = ([example_array, example_array],
                      (\<lparr>start = 15, stop = 30\<rparr>, \<lparr>start = 15, stop = 30\<rparr>)),
          mask = [[0, 0, 12]]\<rparr>
   \<and> np_load example_readers (data_path (sentinel_path (files example_dataset ! 0))) = Inr example_array
   \<and> np_load example_readers (snow_cloud_mask_path (sentinel_path (files example_dataset ! 0)))
       = Inr example_array
   \<and> map_of (centroids example_dataset) (basename (image_path (files example_dataset ! 0)))
       = Some (20, 20)"
proof -
  let ?entry = "files example_dataset ! 0"
  have e: "?entry = files example_dataset
             ! nat (if (0::int) < 0 then 0 + int (length (files example_dataset)) else 0)"
    by simp
  have r: "- int (length (files example_dataset)) \<le> 0" "0 < int (length (files example_dataset))"
    by (simp_all add: example_dataset_def)
  have i: "load_image example_readers example_dataset (image_path ?entry) = Inr (replicate 5 [[10, 20]])"
    by (simp add: load_image_def example_readers_def example_dataset_def)
  have d: "np_load example_readers (data_path (sentinel_path ?entry)) = Inr example_array"
    and m: "np_load example_readers (snow_cloud_mask_path (sentinel_path ?entry)) = Inr example_array"
    by (simp_all add: example_readers_def)
  have c: "map_of (centroids example_dataset) (basename (image_path ?entry)) = Some (20, 20)"
    by (simp add: example_dataset_def example_basename)
  have t: "load_target example_readers (mask_path ?entry) = Inr [[0, 0, 12]]"
    by (simp add: load_target_def example_readers_def remap_in_range)
  from getitem_sentinel_uncropped[OF e, where rd = example_readers and aerial = "replicate 5 [[10, 20]]"
      and data' = example_array and msk' = example_array and y' = 20 and x' = 20
      and tgt = "[[0, 0, 12]]"] r i d m c t
  show ?thesis by simp
qed

text \<open>
  The claim of C1 fails on the example dataset: the super-area of 40 x 40 comes back
  whole, while the window applied to it would leave 15 x 15.
\<close>

theorem sentinel_crop_counterexample:
  "map_sum id sentinel (getitem example_readers None example_dataset 0) =
     Inr ([example_array, example_array], (\<lparr>start = 15, stop = 30\<rparr>, \<lparr>start = 15, stop = 30\<rparr>))
   \<and> spatial_extent example_array = [(40, 40)]
   \<and> spatial_extent (apply_crop_spec example_array (\<lparr>start = 15, stop = 30\<rparr>, \<lparr>start = 15, stop = 30\<rparr>)) = [(15, 15)]
   \<and> example_array \<noteq> apply_crop_spec example_array (\<lparr>start = 15, stop = 30\<rparr>, \<lparr>start = 15, stop = 30\<rparr>)"
proof -
  have c: "spatial_extent (apply_crop_spec example_array (\<lparr>start = 15, stop = 30\<rparr>, \<lparr>start = 15, stop = 30\<rparr>)) = [(15, 15)]"
    by (simp add: spatial_extent_def apply_crop_spec_def example_array_def py_slice_def)
  have f: "spatial_extent example_array = [(40, 40)]"
    by (simp add: spatial_extent_def example_array_def)
  from c f have "example_array \<noteq> apply_crop_spec example_array (\<lparr>start = 15, stop = 30\<rparr>, \<lparr>start = 15, stop = 30\<rparr>)"
    by auto
  with c f show ?thesis by (simp add: example_getitem)
qed

text \<open>
  C4: for a centroid \<open>(y, x)\<close> the window is \<open>[x - eighth, x + quarter)\<close> followed by
  \<open>[y - eighth, y + quarter)\<close>, with \<open>eighth = 40 div 8\<close> and \<open>quarter = 40 div 4\<close>; each
  range holds 15 indices whatever the centroid.
\<close>

theorem crop_window:
  "crop_super_patch data (y, x) =
     (data, (\<lparr>start = x - eigth_size, stop = x + quarter_size\<rparr>,
             \<lparr>start = y - eigth_size, stop = y + quarter_size\<rparr>))
   \<and> eigth_size = 40 div 8 \<and> quarter_size = 40 div 4
   \<and> slice_width (fst (snd (crop_super_patch data (y, x)))) = 15
   \<and> slice_width (snd (snd (crop_super_patch data (y, x)))) = 15"
  by (simp add: crop_super_patch_def slice_width_def eigth_size_def quarter_size_def
      super_patch_size_def)

subsection \<open>The aerial image\<close>

text \<open>
  C2: the image of a sample has \<open>get_num_bands\<close> channels. The code reads every band of the
  file whatever the bands of the instance: with three bands requested and a file of
  five bands, the image of sample 0 has five channels.
\<close>

theorem image_channels_not_num_bands:
  "map_sum id (\<lambda>s. length (image s)) (getitem example_readers None example_dataset 0) = Inr 5
   \<and> get_num_bands example_dataset = 3
   \<and> 0 < len example_dataset"
  by (simp add: example_getitem) (simp add: get_num_bands_def len_def example_dataset_def)

subsection \<open>The mask\<close>

text \<open>
  C5 (as stated in the specification): the mask loader maps every raw label \<open>v\<close> to
  \<open>clamp(v - 1, 0, 12)\<close>. The labels are 64-bit integers and \<open>tensor - 1\<close> wraps around at
  the least value of the type, which the loader maps to 12. The amended property: a
  decoded mask is returned with every label remapped, a decoding error is passed on,
  there are 13 classes, every value of a returned mask lies in \<open>[0, 12]\<close>, the remapping
  is \<open>clamp(v - 1, 0, 12)\<close> for every label above the least 64-bit integer, and the raw
  labels 0, 1 and 14 become 0, 0 and 12.
\<close>

theorem load_target_remap:
  "(rasterio_read1 rd path = Inr array \<longrightarrow>
      load_target rd path = Inr (map (map remap_label) array))
   \<and> (rasterio_read1 rd path = Inl e \<longrightarrow> load_target rd path = Inl e)
   \<and> (load_target rd path = Inr t \<longrightarrow>
        (\<forall>row \<in> set t. \<forall>x \<in> set row. 0 \<le> x \<and> x \<le> int (length classes) - 1))
   \<and> length classes = 13
   \<and> 0 \<le> remap_label v \<and> remap_label v \<le> int (length classes) - 1
   \<and> (- (2 ^ 63) < v \<and> v < 2 ^ 63 \<longrightarrow>
        remap_label v = max 0 (min (int (length classes) - 1) (v - 1)))
   \<and> remap_label (- (2 ^ 63)) = int (length classes) - 1
   \<and> remap_label 0 = 0 \<and> remap_label 1 = 0 \<and> remap_label 14 = 12"
proof -
  have A: "rasterio_read1 rd path = Inr array \<longrightarrow>
      load_target rd path = Inr (map (map remap_label) array)"
    by (simp add: load_target_def)
  have A': "rasterio_read1 rd path = Inl e \<longrightarrow> load_target rd path = Inl e"
    by (simp add: load_target_def)
  have R: "load_target rd path = Inr t \<longrightarrow>
        (\<forall>row \<in> set t. \<forall>x \<in> set row. 0 \<le> x \<and> x \<le> int (length classes) - 1)"
    using remap_range by (auto simp: load_target_def len_classes split: sum.splits)
  have B: "length classes = 13" by (simp add: classes_def)
  have C: "0 \<le> remap_label v \<and> remap_label v \<le> int (length classes) - 1"
    using remap_range by (simp add: len_classes)
  have D: "- (2 ^ 63) < v \<and> v < 2 ^ 63 \<longrightarrow>
        remap_label v = max 0 (min (int (length classes) - 1) (v - 1))"
    using remap_in_range by (simp add: len_classes)
  have E: "remap_label (- (2 ^ 63)) = int (length classes) - 1"
    by (simp add: remap_label_def torch_clamp_def len_classes wrap64_def)
  have F: "remap_label 0 = 0 \<and> remap_label 1 = 0 \<and> remap_label 14 = 12"
    by (simp add: remap_in_range)
  from A A' R B C D E F show ?thesis by blast
qed

theorem load_target_remap_witness:
  "rasterio_read1 example_readers ''MSK_061946.tif'' = Inr [[0, 1, 14]]
   \<and> load_target example_readers ''MSK_061946.tif'' = Inr [[0, 0, 12]]"
proof -
  have r: "rasterio_read1 example_readers ''MSK_061946.tif'' = Inr [[0, 1, 14]]"
    by (simp add: example_readers_def)
  from load_target_remap[of example_readers "''MSK_061946.tif''" "[[0, 1, 14]]"] r
  have "load_target example_readers ''MSK_061946.tif'' = Inr (map (map remap_label) [[0, 1, 14]])"
    by blast
  with r show ?thesis by (simp add: remap_in_range)
qed

text \<open>
  The claim of C5 fails at the least 64-bit integer: the loader returns 12 where
  \<open>clamp(v - 1, 0, 12)\<close> is 0.
\<close>

theorem least_label_counterexample:
  "rasterio_read1 least_label_readers ''MSK_061946.tif'' = Inr [[- (2 ^ 63)]]
   \<and> load_target least_label_readers ''MSK_061946.tif'' = Inr [[12]]
   \<and> max 0 (min (int (length classes) - 1) (- (2 ^ 63) - 1)) = (0 :: int)"
  by (simp add: least_label_readers_def example_readers_def load_target_def remap_label_def
      torch_clamp_def len_classes wrap64_def)

subsection \<open>Band statistics\<close>

text \<open>
  C3 (as stated in the specification): the four lists follow the order of the requested
  bands, for every supported split. The code filters the table, so the lists follow the
  order of the table; the split \<open>test\<close> has no statistics. The amended property: for
  \<open>train\<close> the result is that of the requested bands taken in table order, and the
  request \<open>[B02, B01]\<close> yields the statistics of \<open>B01\<close> then \<open>B02\<close>, with means near
  113.775 and 118.081.
\<close>

theorem stats_table_order:
  "per_band_statistics ''train'' bnds = per_band_statistics_spec ''train'' (table_order bnds)
   \<and> per_band_statistics ''test'' bnds = Inl AssertionError
   \<and> table_order [''B02'', ''B01''] = [''B01'', ''B02'']
   \<and> per_band_statistics ''train'' [''B02'', ''B01''] =
       Inr ([0, 0], [255, 255],
            [11377526983072 / 100000000000, 11808112962721 / 100000000000],
            [14678962001526 / 10000000000000, 12889349378677 / 10000000000000])
   \<and> \<bar>11377526983072 / 100000000000 - 113.775\<bar> < (0.001 :: real)
   \<and> \<bar>11808112962721 / 100000000000 - 118.081\<bar> < (0.001 :: real)"
proof -
  have d: "distinct (map fst (snd (hd statistics)))" by (simp add: keys_train all_bands_def)
  have 1: "per_band_statistics ''train'' bnds = per_band_statistics_spec ''train'' (table_order bnds)"
    unfolding per_band_statistics_def per_band_statistics_spec_def train_table table_order_def
    using filter_table_by_keys[OF d, of "set bnds"] by (simp add: keys_train Let_def)
  have 2: "per_band_statistics ''test'' bnds = Inl AssertionError"
    by (simp add: per_band_statistics_def statistics_def)
  have 3: "table_order [''B02'', ''B01''] = [''B01'', ''B02'']"
    by (simp add: table_order_def all_bands_def)
  have 4: "per_band_statistics ''train'' [''B02'', ''B01''] =
       Inr ([0, 0], [255, 255],
            [11377526983072 / 100000000000, 11808112962721 / 100000000000],
            [14678962001526 / 10000000000000, 12889349378677 / 10000000000000])"
    by (simp add: per_band_statistics_def statistics_def)
  show ?thesis using 1 2 3 4 by simp
qed

text \<open>
  The claim of C3 fails at the request \<open>[B02, B01]\<close>, and at the supported split \<open>test\<close>.
\<close>

theorem stats_order_counterexample:
  "per_band_statistics ''train'' [''B02'', ''B01''] \<noteq> per_band_statistics_spec ''train'' [''B02'', ''B01'']
   \<and> ''test'' \<in> set splits \<and> per_band_statistics ''test'' [''B02'', ''B01''] = Inl AssertionError"
  by (simp add: per_band_statistics_def per_band_statistics_spec_def statistics_def List.map_filter_simps splits_def)

text \<open>
  C10: \<open>per_band_statistics\<close> raises its assertion error exactly when the split has no
  recorded statistics; otherwise it returns four lists whose common length is the number
  of distinct requested bands that are in the table, which can be less than the number
  of bands requested.
\<close>

theorem stats_assert_iff:
  "(per_band_statistics splt bnds = Inl AssertionError \<longleftrightarrow> splt \<notin> fst ` set statistics)
   \<and> (splt \<in> fst ` set statistics \<longrightarrow>
        (\<exists>mins maxs means stdvs.
           per_band_statistics splt bnds = Inr (mins, maxs, means, stdvs)
           \<and> length mins = card (set bnds \<inter> set all_bands)
           \<and> length maxs = card (set bnds \<inter> set all_bands)
           \<and> length means = card (set bnds \<inter> set all_bands)
           \<and> length stdvs = card (set bnds \<inter> set all_bands)
           \<and> (distinct bnds \<longrightarrow> length mins = length (filter (\<lambda>b. b \<in> set all_bands) bnds))
           \<and> length mins \<le> length bnds))
   \<and> (\<exists>mins maxs means stdvs.
        per_band_statistics ''train'' [''B01'', ''B99''] = Inr (mins, maxs, means, stdvs)
        \<and> length mins < length [''B01'', ''B99''])"
proof -
  have d: "distinct (map fst (snd (hd statistics)))" by (simp add: keys_train all_bands_def)
  have keys: "fst ` set statistics = {''train''}" by (simp add: statistics_def)
  have s: "fst ` set (snd (hd statistics)) = set all_bands"
    using keys_train by (metis set_map)
  have L: "length (filter (\<lambda>kv. fst kv \<in> set bnds) (snd (hd statistics))) = card (set bnds \<inter> set all_bands)"
    using filter_keys_card[OF d, of "set bnds"] s by simp
  have le: "card (set bnds \<inter> set all_bands) \<le> length bnds"
    by (meson List.finite_set card_length card_mono inf_le1 le_trans)
  have dl: "distinct bnds \<Longrightarrow> card (set bnds \<inter> set all_bands) = length (filter (\<lambda>b. b \<in> set all_bands) bnds)"
  proof -
    assume "distinct bnds"
    then have "distinct (filter (\<lambda>b. b \<in> set all_bands) bnds)" by simp
    then have "card (set (filter (\<lambda>b. b \<in> set all_bands) bnds)) = length (filter (\<lambda>b. b \<in> set all_bands) bnds)"
      by (rule distinct_card)
    moreover have "set (filter (\<lambda>b. b \<in> set all_bands) bnds) = set bnds \<inter> set all_bands" by auto
    ultimately show ?thesis by simp
  qed
  have A: "per_band_statistics splt bnds = Inl AssertionError \<longleftrightarrow> splt \<notin> fst ` set statistics"
  proof (cases "splt = ''train''")
    case True then show ?thesis using keys by (simp add: per_band_statistics_def train_table Let_def)
  next
    case False
    then have "map_of statistics splt = None" by (simp add: statistics_def)
    then show ?thesis using False keys by (simp add: per_band_statistics_def)
  qed
  have B: "splt \<in> fst ` set statistics \<longrightarrow>
        (\<exists>mins maxs means stdvs.
           per_band_statistics splt bnds = Inr (mins, maxs, means, stdvs)
           \<and> length mins = card (set bnds \<inter> set all_bands)
           \<and> length maxs = card (set bnds \<inter> set all_bands)
           \<and> length means = card (set bnds \<inter> set all_bands)
           \<and> length stdvs = card (set bnds \<inter> set all_bands)
           \<and> (distinct bnds \<longrightarrow> length mins = length (filter (\<lambda>b. b \<in> set all_bands) bnds))
           \<and> length mins \<le> length bnds)"
    using keys L le dl by (simp add: per_band_statistics_def train_table Let_def)
  have C: "\<exists>mins maxs means stdvs.
        per_band_statistics ''train'' [''B01'', ''B99''] = Inr (mins, maxs, means, stdvs)
        \<and> length mins < length [''B01'', ''B99'']"
    by (simp add: per_band_statistics_def statistics_def)
  show ?thesis using A B C by blast
qed

theorem stats_assert_iff_witness:
  "''train'' \<in> fst ` set statistics \<and> ''val'' \<notin> fst ` set statistics
   \<and> per_band_statistics ''val'' [''B01''] = Inl AssertionError
   \<and> (\<exists>mins maxs means stdvs.
         per_band_statistics ''train'' [''B03'', ''B99'', ''B01''] = Inr (mins, maxs, means, stdvs)
         \<and> length mins = 2)"
proof -
  have k1: "''train'' \<in> fst ` set statistics" by (simp add: statistics_def)
  have k2: "''val'' \<notin> fst ` set statistics" by (simp add: statistics_def)
  have c: "card (set [''B03'', ''B99'', ''B01''] \<inter> set all_bands) = 2"
    by (simp add: all_bands_def)
  from stats_assert_iff[of "''val''" "[''B01'']"] k2
  have e: "per_band_statistics ''val'' [''B01''] = Inl AssertionError" by blast
  from stats_assert_iff[of "''train''" "[''B03'', ''B99'', ''B01'']"] k1 c
  have "\<exists>mins maxs means stdvs.
         per_band_statistics ''train'' [''B03'', ''B99'', ''B01''] = Inr (mins, maxs, means, stdvs)
         \<and> length mins = 2" by auto
  with k1 k2 e show ?thesis by blast
qed

subsection \<open>Verification and construction: auxiliary facts\<close>

lemma prim_simps:
  "os_isfile os p w = (isfile os (fs w) p, w\<lparr>trace := trace w @ [IsFile p]\<rparr>)"
  "os_isdir os p w = (isdir os (fs w) p, w\<lparr>trace := trace w @ [IsDir p]\<rparr>)"
  "glob_glob os r p w = (glob os (fs w) r p, w\<lparr>trace := trace w @ [Glob p]\<rparr>)"
  by (simp_all add: os_isfile_def os_isdir_def glob_glob_def)

lemma priv_extract_fields:
  "fs (priv_extract os self c w) = extract_archive os (path_join (root self) (c @ ''.zip'')) (fs w)"
  "dir_names (priv_extract os self c w) = dir_names w"
  by (simp_all add: priv_extract_def Let_def)

lemma scan_dirs_ok:
  assumes "\<forall>(k, d') \<in> set tbl. isdir os (fs w) (path_join (root self) d')
              \<longrightarrow> (\<exists>pat. map_of globs k = Some (Pattern pat))"
  shows "\<exists>te' w'. scan_dirs os self tbl te w = (Inr te', w')
           \<and> fs w' = fs w \<and> dir_names w' = dir_names w
           \<and> set te \<subseteq> set te' \<and> set te' \<subseteq> set te \<union> snd ` set tbl
           \<and> (\<forall>(k, d) \<in> set tbl. \<not> isdir os (fs w) (path_join (root self) d) \<longrightarrow> d \<in> set te')"
  using assms
proof (induction tbl arbitrary: te w)
  case Nil
  then show ?case by simp
next
  case (Cons a tbl)
  obtain k d where a: "a = (k, d)" by (cases a)
  define w1 where "w1 = w\<lparr>trace := trace w @ [IsDir (path_join (root self) d)]\<rparr>"
  have fw1: "fs w1 = fs w" "dir_names w1 = dir_names w" by (simp_all add: w1_def)
  show ?case
  proof (cases "isdir os (fs w) (path_join (root self) d)")
    case False
    have pre: "\<forall>(k, d') \<in> set tbl. isdir os (fs w1) (path_join (root self) d')
              \<longrightarrow> (\<exists>pat. map_of globs k = Some (Pattern pat))"
      using Cons.prems fw1 by auto
    from Cons.IH[OF pre, of "te @ [d]"] obtain te' w' where
      r: "scan_dirs os self tbl (te @ [d]) w1 = (Inr te', w')"
      and f: "fs w' = fs w1" "dir_names w' = dir_names w1"
      and s1: "set (te @ [d]) \<subseteq> set te'" and s2: "set te' \<subseteq> set (te @ [d]) \<union> snd ` set tbl"
      and m: "\<forall>(k, d) \<in> set tbl. \<not> isdir os (fs w1) (path_join (root self) d) \<longrightarrow> d \<in> set te'"
      by blast
    have "scan_dirs os self (a # tbl) te w = (Inr te', w')"
      using False r by (simp add: a prim_simps w1_def)
    moreover have "set te \<subseteq> set te'" using s1 by auto
    moreover have "set te' \<subseteq> set te \<union> snd ` set (a # tbl)" using s2 a by auto
    moreover have "\<forall>(k, d) \<in> set (a # tbl). \<not> isdir os (fs w) (path_join (root self) d) \<longrightarrow> d \<in> set te'"
      using m s1 a fw1 by auto
    ultimately show ?thesis using f fw1 by auto
  next
    case True
    with Cons.prems a obtain pat where pat: "map_of globs k = Some (Pattern pat)" by auto
    define p where "p = path_join (path_join (path_join (root self) d) ''**'') pat"
    define w2 where "w2 = w1\<lparr>trace := trace w1 @ [Glob p]\<rparr>"
    have fw2: "fs w2 = fs w" "dir_names w2 = dir_names w" by (simp_all add: w2_def w1_def)
    define te2 where "te2 = (if glob os (fs w) True p = [] then te @ [d] else te)"
    have pre: "\<forall>(k, d') \<in> set tbl. isdir os (fs w2) (path_join (root self) d')
              \<longrightarrow> (\<exists>pat. map_of globs k = Some (Pattern pat))"
      using Cons.prems fw2 by auto
    from Cons.IH[OF pre, of te2] obtain te' w' where
      r: "scan_dirs os self tbl te2 w2 = (Inr te', w')"
      and f: "fs w' = fs w2" "dir_names w' = dir_names w2"
      and s1: "set te2 \<subseteq> set te'" and s2: "set te' \<subseteq> set te2 \<union> snd ` set tbl"
      and m: "\<forall>(k, d) \<in> set tbl. \<not> isdir os (fs w2) (path_join (root self) d) \<longrightarrow> d \<in> set te'"
      by blast
    have "scan_dirs os self (a # tbl) te w = (Inr te', w')"
      using True r pat fw1
      by (auto simp add: a prim_simps w1_def[symmetric] w2_def p_def te2_def split: if_splits)
    moreover have "set te \<subseteq> set te'" using s1 by (auto simp: te2_def split: if_splits)
    moreover have "set te' \<subseteq> set te \<union> snd ` set (a # tbl)"
      using s2 a by (auto simp: te2_def split: if_splits)
    moreover have "\<forall>(k, d) \<in> set (a # tbl). \<not> isdir os (fs w) (path_join (root self) d) \<longrightarrow> d \<in> set te'"
      using m True a fw2 by auto
    ultimately show ?thesis using f fw2 by auto
  qed
qed

lemma extract_local_keeps:
  assumes frame: "\<forall>f c. c \<in> C \<longrightarrow> glob os f False zd = []
                    \<longrightarrow> glob os (extract_archive os (path_join (root self) (c @ ''.zip'')) f) False zd = []"
    and zd: "zd = path_join (root self) (d @ ''.zip'')"
    and "set cands \<subseteq> C" and "d \<in> set td" and "glob os (fs w) False zd = []"
  shows "d \<in> set (fst (extract_local os self cands td w))"
  using assms(3-)
proof (induction cands arbitrary: td w)
  case Nil
  then show ?case by simp
next
  case (Cons c cands)
  define w1 where "w1 = w\<lparr>trace := trace w @ [Glob (path_join (root self) (c @ ''.zip''))]\<rparr>"
  have fw1: "fs w1 = fs w" by (simp add: w1_def)
  show ?case
  proof (cases "glob os (fs w) False (path_join (root self) (c @ ''.zip'')) = []")
    case True
    have "d \<in> set (fst (extract_local os self cands td w1))"
      using Cons.IH[of td w1] Cons.prems fw1 by auto
    then show ?thesis using True by (simp add: prim_simps w1_def)
  next
    case False
    then have cd: "c \<noteq> d" using Cons.prems(3) zd by auto
    then have mem: "d \<in> set (remove1 c td)" using Cons.prems(2) by simp
    have cC: "c \<in> C" using Cons.prems(1) by simp
    have inv: "glob os (fs (priv_extract os self c w1)) False zd = []"
      using frame cC Cons.prems(3) fw1 by (simp add: priv_extract_fields)
    have "d \<in> set (fst (extract_local os self cands (remove1 c td) (priv_extract os self c w1)))"
      using Cons.IH[OF _ mem inv] Cons.prems(1) by simp
    then show ?thesis using False by (simp add: prim_simps w1_def)
  qed
qed

lemma verify_centroids_absent:
  assumes "\<not> isfile os (fs w) (path_join (root self) (centroids_file @ ''.json''))"
    and "\<not> isfile os (fs w) (path_join (root self) (centroids_file @ ''.zip''))"
    and "\<not> download self"
  shows "fst (verify_centroids os self w) = Inl DatasetNotFoundError"
  using assms by (simp add: verify_centroids_def prim_simps)

lemma verify_centroids_present:
  assumes "isfile os (fs w) (path_join (root self) (centroids_file @ ''.json''))
           \<or> isfile os (fs w) (path_join (root self) (centroids_file @ ''.zip''))"
  shows "\<exists>w1. verify_centroids os self w = (Inr (), w1)
           \<and> dir_names w1 = dir_names w
           \<and> fs w1 = (if isfile os (fs w) (path_join (root self) (centroids_file @ ''.json''))
                       then fs w
                       else extract_archive os (path_join (root self) (centroids_file @ ''.zip'')) (fs w))"
  using assms by (auto simp add: verify_centroids_def prim_simps priv_extract_fields)

lemma verify_missing_directory:
  assumes nt: "\<not> use_toy self" and nd: "\<not> download self"
    and rt: "root self = rt" and sp: "split self = splt"
    and cen: "isfile os (fs w) (path_join rt (centroids_file @ ''.json''))
           \<or> isfile os (fs w) (path_join rt (centroids_file @ ''.zip''))"
    and f1: "f1 = (if isfile os (fs w) (path_join rt (centroids_file @ ''.json''))
                   then fs w
                   else extract_archive os (path_join rt (centroids_file @ ''.zip'')) (fs w))"
    and tbl: "map_of (dir_names w) splt = Some tbl"
    and pats: "\<forall>(k, d') \<in> set tbl. isdir os f1 (path_join rt d')
                 \<longrightarrow> (\<exists>pat. map_of globs k = Some (Pattern pat))"
    and kd: "(k, d) \<in> set tbl" and absent: "\<not> isdir os f1 (path_join rt d)"
    and nozip: "glob os f1 False (path_join rt (d @ ''.zip'')) = []"
    and frame: "\<forall>f c. c \<in> snd ` set tbl
                  \<longrightarrow> glob os f False (path_join rt (d @ ''.zip'')) = []
                  \<longrightarrow> glob os (extract_archive os (path_join rt (c @ ''.zip'')) f) False
                        (path_join rt (d @ ''.zip'')) = []"
  shows "fst (verify os self w) = Inl DatasetNotFoundError"
proof -
  from cen have cen': "isfile os (fs w) (path_join (root self) (centroids_file @ ''.json''))
           \<or> isfile os (fs w) (path_join (root self) (centroids_file @ ''.zip''))"
    by (simp add: rt)
  from verify_centroids_present[OF cen'] f1 obtain w1 where
    c: "verify_centroids os self w = (Inr (), w1)" and dn: "dir_names w1 = dir_names w"
    and fw1: "fs w1 = f1" by (auto simp: rt)
  from pats fw1 have pats1: "\<forall>(k, d') \<in> set tbl. isdir os (fs w1) (path_join (root self) d')
                 \<longrightarrow> (\<exists>pat. map_of globs k = Some (Pattern pat))" by (simp add: rt)
  from scan_dirs_ok[OF pats1, of "[]"] obtain te w2 where
    sc: "scan_dirs os self tbl [] w1 = (Inr te, w2)" and fw2: "fs w2 = fs w1"
    and sub: "set te \<subseteq> set [] \<union> snd ` set tbl"
    and m: "\<forall>(k, d) \<in> set tbl. \<not> isdir os (fs w1) (path_join (root self) d) \<longrightarrow> d \<in> set te"
    by blast
  from m kd absent fw1 have dte: "d \<in> set te" by (auto simp: rt)
  then have ne: "te \<noteq> []" by auto
  from sub have sub': "set te \<subseteq> snd ` set tbl" by simp
  have z2: "glob os (fs w2) False (path_join (root self) (d @ ''.zip'')) = []"
    using nozip fw1 fw2 by (simp add: rt)
  from frame have frame': "\<forall>f c. c \<in> snd ` set tbl
                  \<longrightarrow> glob os f False (path_join (root self) (d @ ''.zip'')) = []
                  \<longrightarrow> glob os (extract_archive os (path_join (root self) (c @ ''.zip'')) f) False
                        (path_join (root self) (d @ ''.zip'')) = []"
    by (simp add: rt)
  have keep: "d \<in> set (fst (extract_local os self te te w2))"
    by (rule extract_local_keeps[OF frame' refl sub' dte z2])
  obtain td w3 where el: "extract_local os self te te w2 = (td, w3)"
    by (cases "extract_local os self te te w2")
  with keep have "td \<noteq> []" by auto
  then show ?thesis
    using nt nd c dn tbl sc ne el sp by (simp add: verify_def)
qed

lemma verify_toy_absent:
  assumes "\<not> isdir os (fs w) (path_join (root self) ''flair_2_toy_dataset'')"
    and "\<not> isfile os (fs w) (path_join (root self) ''flair_2_toy_dataset.zip'')"
    and "\<not> download self"
  shows "fst (verify_toy os self w) = Inl DatasetNotFoundError"
  using assms by (simp add: verify_toy_def prim_simps Let_def)

lemma init_verify_error:
  assumes "splt \<in> set splits"
    and "fst (verify os \<lparr>root = rt, split = splt, bands = bnds, download = dl, checksum = cs,
                     use_toy = toy, centroids = [], files = []\<rparr> w) = Inl e"
  shows "fst (init os rt splt bnds dl cs toy w) = Inl e"
  using assms by (auto simp add: init_def Let_def split: prod.splits sum.splits)

lemma example_fields:
  "isfile example_services = (\<lambda>paths p. p \<in> set paths)"
  "isdir example_services = (\<lambda>paths p. p \<in> set paths)"
  "glob example_services = (\<lambda>paths recursive p. filter (\<lambda>q. q = p) paths)"
  "extract_archive example_services = (\<lambda>zipfile paths. paths @ [take (length zipfile - 4) zipfile])"
  by (simp_all add: example_services_def)

subsection \<open>Construction\<close>

text \<open>
  C8: constructing the dataset with a split other than \<open>train\<close> and \<open>test\<close> fails at once
  with the assertion error: the world, and with it the trace of file-system calls,
  downloads and extractions, is left as it was.
\<close>

theorem init_rejects_unsupported_split:
  "splt \<notin> set splits \<Longrightarrow> init os rt splt bnds dl cs toy w = (Inl AssertionError, w)"
  by (simp add: init_def)

theorem init_rejects_unsupported_split_witness:
  "''val'' \<notin> set splits
   \<and> init example_services ''data'' ''val'' all_bands True False False (fresh_world train_paths)
       = (Inl AssertionError, fresh_world train_paths)
   \<and> trace (fresh_world train_paths) = []"
proof -
  have h: "''val'' \<notin> set splits" by (simp add: splits_def)
  from init_rejects_unsupported_split[OF h] show ?thesis using h by (simp add: fresh_world_def)
qed

text \<open>
  C9 (as stated in the specification): whenever the centroid file or a directory of the
  split is absent without a local archive and downloading is disabled, construction
  raises \<open>DatasetNotFoundError\<close>. Toy mode checks only the toy directory and its archive,
  so the claim fails there. The amended property, with downloading disabled: without toy
  mode, construction raises \<open>DatasetNotFoundError\<close> when the centroid file and its archive
  are both absent, and also when the centroid check passes, every directory of the
  split that exists has a plain glob pattern, and some directory of the split is absent
  while its archive is absent and is not produced by extracting the archives of the
  split's directories; in toy mode, when the toy directory and the toy archive are both
  absent.
\<close>

theorem init_missing_data:
  assumes "splt \<in> set splits"
  shows
   "(\<not> isfile os (fs w) (path_join rt (centroids_file @ ''.json''))
      \<and> \<not> isfile os (fs w) (path_join rt (centroids_file @ ''.zip''))
      \<longrightarrow> fst (init os rt splt bnds False cs False w) = Inl DatasetNotFoundError)
    \<and> ((isfile os (fs w) (path_join rt (centroids_file @ ''.json''))
          \<or> isfile os (fs w) (path_join rt (centroids_file @ ''.zip'')))
        \<and> f1 = (if isfile os (fs w) (path_join rt (centroids_file @ ''.json'')) then fs w
                 else extract_archive os (path_join rt (centroids_file @ ''.zip'')) (fs w))
        \<and> map_of (dir_names w) splt = Some tbl
        \<and> (\<forall>(k, d') \<in> set tbl. isdir os f1 (path_join rt d')
               \<longrightarrow> (\<exists>pat. map_of globs k = Some (Pattern pat)))
        \<and> (k, d) \<in> set tbl
        \<and> \<not> isdir os f1 (path_join rt d)
        \<and> glob os f1 False (path_join rt (d @ ''.zip'')) = []
        \<and> (\<forall>f c. c \<in> snd ` set tbl
               \<longrightarrow> glob os f False (path_join rt (d @ ''.zip'')) = []
               \<longrightarrow> glob os (extract_archive os (path_join rt (c @ ''.zip'')) f) False
                     (path_join rt (d @ ''.zip'')) = [])
        \<longrightarrow> fst (init os rt splt bnds False cs False w) = Inl DatasetNotFoundError)
    \<and> (\<not> isdir os (fs w) (path_join rt ''flair_2_toy_dataset'')
        \<and> \<not> isfile os (fs w) (path_join rt ''flair_2_toy_dataset.zip'')
        \<longrightarrow> fst (init os rt splt bnds False cs True w) = Inl DatasetNotFoundError)"
proof (intro conjI impI)
  let ?self = "\<lparr>root = rt, split = splt, bands = bnds, download = False, checksum = cs,
                use_toy = False, centroids = [], files = []\<rparr>"
  let ?toy = "\<lparr>root = rt, split = splt, bands = bnds, download = False, checksum = cs,
                use_toy = True, centroids = [], files = []\<rparr>"
  {
    assume h: "\<not> isfile os (fs w) (path_join rt (centroids_file @ ''.json''))
      \<and> \<not> isfile os (fs w) (path_join rt (centroids_file @ ''.zip''))"
    have "fst (verify_centroids os ?self w) = Inl DatasetNotFoundError"
      by (rule verify_centroids_absent) (use h in simp_all)
    then have "fst (verify os ?self w) = Inl DatasetNotFoundError"
      by (auto simp add: verify_def split: prod.splits sum.splits)
    then show "fst (init os rt splt bnds False cs False w) = Inl DatasetNotFoundError"
      by (rule init_verify_error[OF assms])
  }
  {
    assume h: "(isfile os (fs w) (path_join rt (centroids_file @ ''.json''))
          \<or> isfile os (fs w) (path_join rt (centroids_file @ ''.zip'')))
        \<and> f1 = (if isfile os (fs w) (path_join rt (centroids_file @ ''.json'')) then fs w
                 else extract_archive os (path_join rt (centroids_file @ ''.zip'')) (fs w))
        \<and> map_of (dir_names w) splt = Some tbl
        \<and> (\<forall>(k, d') \<in> set tbl. isdir os f1 (path_join rt d')
               \<longrightarrow> (\<exists>pat. map_of globs k = Some (Pattern pat)))
        \<and> (k, d) \<in> set tbl
        \<and> \<not> isdir os f1 (path_join rt d)
        \<and> glob os f1 False (path_join rt (d @ ''.zip'')) = []
        \<and> (\<forall>f c. c \<in> snd ` set tbl
               \<longrightarrow> glob os f False (path_join rt (d @ ''.zip'')) = []
               \<longrightarrow> glob os (extract_archive os (path_join rt (c @ ''.zip'')) f) False
                     (path_join rt (d @ ''.zip'')) = [])"
    have "fst (verify os ?self w) = Inl DatasetNotFoundError"
    proof (rule verify_missing_directory[where ?f1.0 = f1 and tbl = tbl and k = k and d = d
          and rt = rt and splt = splt])
      show "\<not> use_toy ?self" "\<not> download ?self" "root ?self = rt" "split ?self = splt"
        by simp_all
    qed (use h in blast)+
    then show "fst (init os rt splt bnds False cs False w) = Inl DatasetNotFoundError"
      by (rule init_verify_error[OF assms])
  }
  {
    assume h: "\<not> isdir os (fs w) (path_join rt ''flair_2_toy_dataset'')
        \<and> \<not> isfile os (fs w) (path_join rt ''flair_2_toy_dataset.zip'')"
    have "fst (verify_toy os ?toy w) = Inl DatasetNotFoundError"
      by (rule verify_toy_absent) (use h in simp_all)
    then have "fst (verify os ?toy w) = Inl DatasetNotFoundError"
      by (auto simp add: verify_def split: prod.splits sum.splits)
    then show "fst (init os rt splt bnds False cs True w) = Inl DatasetNotFoundError"
      by (rule init_verify_error[OF assms])
  }
qed

theorem init_missing_data_witness:
  "fst (init example_services ''data'' ''train'' all_bands False False False (fresh_world []))
     = Inl DatasetNotFoundError
   \<and> fst (init example_services ''data'' ''train'' all_bands False False False
            (fresh_world partial_paths)) = Inl DatasetNotFoundError
   \<and> fst (init example_services ''data'' ''train'' all_bands False False True (fresh_world []))
     = Inl DatasetNotFoundError"
proof -
  have s: "''train'' \<in> set splits" by (simp add: splits_def)
  let ?tbl = "[(''images'', ''flair_aerial_train''), (''sentinels'', ''flair_sen_train''),
               (''masks'', ''flair_labels_train'')]"
  have a: "fst (init example_services ''data'' ''train'' all_bands False False False (fresh_world []))
     = Inl DatasetNotFoundError"
    using init_missing_data[OF s, where os = example_services and w = "fresh_world []"
        and rt = "''data''" and bnds = all_bands and cs = False]
    by (simp add: example_fields fresh_world_def)
  have c: "fst (init example_services ''data'' ''train'' all_bands False False True (fresh_world []))
     = Inl DatasetNotFoundError"
    using init_missing_data[OF s, where os = example_services and w = "fresh_world []"
        and rt = "''data''" and bnds = all_bands and cs = False]
    by (simp add: example_fields fresh_world_def)
  have h1: "isfile example_services (fs (fresh_world partial_paths))
              (path_join ''data'' (centroids_file @ ''.json''))"
    by (simp add: example_fields fresh_world_def partial_paths_def path_join_def centroids_file_def)
  have h3: "map_of (dir_names (fresh_world partial_paths)) ''train'' = Some ?tbl"
    by (simp add: fresh_world_def dir_names_init_def)
  have h4: "\<forall>(k, d') \<in> set ?tbl. isdir example_services partial_paths (path_join ''data'' d')
               \<longrightarrow> (\<exists>pat. map_of globs k = Some (Pattern pat))"
    by (simp add: example_fields partial_paths_def path_join_def globs_def)
  have h6: "\<not> isdir example_services partial_paths (path_join ''data'' ''flair_labels_train'')"
    by (simp add: example_fields partial_paths_def path_join_def)
  have h7: "glob example_services partial_paths False
              (path_join ''data'' (''flair_labels_train'' @ ''.zip'')) = []"
    by (simp add: example_fields partial_paths_def path_join_def)
  have h8: "\<forall>f c. c \<in> snd ` set ?tbl
               \<longrightarrow> glob example_services f False (path_join ''data'' (''flair_labels_train'' @ ''.zip'')) = []
               \<longrightarrow> glob example_services
                     (extract_archive example_services (path_join ''data'' (c @ ''.zip'')) f) False
                     (path_join ''data'' (''flair_labels_train'' @ ''.zip'')) = []"
    by (auto simp add: example_fields path_join_def)
  have b: "fst (init example_services ''data'' ''train'' all_bands False False False
            (fresh_world partial_paths)) = Inl DatasetNotFoundError"
    using init_missing_data[OF s, where os = example_services and w = "fresh_world partial_paths"
        and rt = "''data''" and ?f1.0 = partial_paths and tbl = ?tbl and k = "''masks''"
        and d = "''flair_labels_train''" and bnds = all_bands and cs = False]
      h1 h3 h4 h6 h7 h8
    by (simp add: fresh_world_def)
  from a b c show ?thesis by simp
qed

text \<open>
  The claim of C9 fails in toy mode: with the toy directory extracted, no directory of
  the split and no archive on disk, construction succeeds with an empty index; with the
  centroid file absent as well it fails with \<open>FileNotFoundError\<close>.
\<close>

theorem toy_construction_counterexample:
  "fst (toy_construction False toy_paths) = Inr (toy_instance False)
   \<and> \<not> isdir example_services toy_paths ''data/flair_2_toy_dataset/flair_2_toy_aerial_train''
   \<and> \<not> isfile example_services toy_paths ''data/flair_2_toy_dataset/flair_2_toy_aerial_train.zip''
   \<and> \<not> isdir example_services toy_paths ''data/flair_aerial_train''
   \<and> \<not> isfile example_services toy_paths ''data/flair_aerial_train.zip''
   \<and> fst (toy_construction False [''data/flair_2_toy_dataset'']) = Inl FileNotFoundError
   \<and> \<not> isfile example_services [''data/flair_2_toy_dataset'']
          ''data/flair_2_toy_dataset/flair-2_centroids_sp_to_patch.json''
   \<and> \<not> isfile example_services [''data/flair_2_toy_dataset'']
          ''data/flair_2_toy_dataset/flair-2_centroids_sp_to_patch.zip''"
  by code_simp

subsection \<open>Shared state and repeated verification\<close>

text \<open>
  C6: no mutable state is shared between instances. The code keeps \<open>dir_names\<close> on the
  class and rewrites it when a toy instance is verified: after the construction of a toy
  instance the table holds the toy names, and the construction of an ordinary instance
  of the train split, which succeeds in a fresh process, raises \<open>DatasetNotFoundError\<close>.
\<close>

theorem shared_dir_names_rewritten:
  "fst (toy_construction False mixed_paths) = Inr (toy_instance False)
   \<and> dir_names (fresh_world mixed_paths) = dir_names_init
   \<and> dir_names (snd (toy_construction False mixed_paths)) = toy_dir_names
   \<and> toy_dir_names \<noteq> dir_names_init
   \<and> isl (fst (init example_services ''data'' ''train'' all_bands False False False
                  (fresh_world mixed_paths))) = False
   \<and> fst (init example_services ''data'' ''train'' all_bands False False False
             (snd (toy_construction False mixed_paths))) = Inl DatasetNotFoundError"
  by code_simp

text \<open>
  C7: verification with everything present is a no-op. With the centroid file and the
  three directories of the train split in place, \<open>_verify\<close> raises \<open>TypeError\<close> at the
  sentinel directory, whose glob entry is a dictionary. A toy instance that is verified
  again looks for the toy directory below its rebound root, and downloads and extracts
  the toy archive a second time.
\<close>

theorem verify_not_idempotent:
  "fst (verify example_services example_dataset (fresh_world train_paths)) = Inl TypeError
   \<and> fst (toy_construction True toy_paths) = Inr (toy_instance True)
   \<and> drop (length (trace (snd (toy_construction True toy_paths))))
        (trace (snd (verify example_services (toy_instance True)
                       (snd (toy_construction True toy_paths))))) =
       [IsDir ''data/flair_2_toy_dataset/flair_2_toy_dataset'',
        IsFile ''data/flair_2_toy_dataset/flair_2_toy_dataset.zip'',
        Download (path_join url_prefix ''flair_2_toy_dataset.zip'') ''data/flair_2_toy_dataset'',
        Extract ''data/flair_2_toy_dataset/flair_2_toy_dataset.zip'']"
  by code_simp

end
